theory Spec2Isabelle
  imports Complex_Main "HOL-Library.AList"
begin

section \<open>Python values, errors and effects\<close>

text \<open>
  A raw channel value is what the device cloud last reported: nothing (\<open>None\<close>), a
  string, an integer, a float or a small record. Floats are kept opaque (the type
  parameter \<open>'f\<close>): the controllers only carry them around.
\<close>

datatype 'f pyval =
    PNone
  | PStr string
  | PInt int
  | PFloat 'f
  | PDict "(string \<times> 'f pyval) list"

text \<open>The exceptions the two source files can let escape.\<close>

datatype py_error = KeyError | TypeError | AttributeError

text \<open>A \<open>dict\<close> cannot be used as a dictionary key: the lookup raises TypeError.\<close>

fun hashable :: "'f pyval \<Rightarrow> bool" where
  "hashable (PDict d) = False"
| "hashable v = True"

text \<open>\<open>d[k]\<close> on a dictionary with string keys: KeyError when the key is missing.\<close>

definition getitem :: "('k \<times> 'v) list \<Rightarrow> 'k \<Rightarrow> py_error + 'v" where
  "getitem d k = (case map_of d k of None \<Rightarrow> Inl KeyError | Some v \<Rightarrow> Inr v)"

text \<open>\<open>d[k]\<close> where the key is a raw channel value of any shape.\<close>

definition getitem_val :: "('f pyval \<times> 'v) list \<Rightarrow> 'f pyval \<Rightarrow> py_error + 'v" where
  "getitem_val d k = (if hashable k then getitem d k else Inl TypeError)"

text \<open>\<open>d.get(k)\<close>: the value, or \<open>None\<close> when the key is missing.\<close>

definition dict_get :: "(string \<times> 'f pyval) list \<Rightarrow> string \<Rightarrow> 'f pyval" where
  "dict_get d k = (case map_of d k of None \<Rightarrow> PNone | Some v \<Rightarrow> v)"

text \<open>
  \<open>v.get(k)\<close> on any raw value: only a record has the method, every other value
  raises AttributeError.
\<close>

fun val_get :: "'f pyval \<Rightarrow> string \<Rightarrow> py_error + 'f pyval" where
  "val_get (PDict d) k = Inr (dict_get d k)"
| "val_get v k = Inl AttributeError"

text \<open>
  The comprehension \<open>{v: k for k, v in d.items()}\<close>: the items are visited in
  insertion order and each assignment replaces an existing key in place or appends a
  new one, so a value that occurs twice keeps the key seen last.
\<close>

definition dict_invert :: "('k \<times> 'v) list \<Rightarrow> ('v \<times> 'k) list" where
  "dict_invert d = foldl (\<lambda>acc (k, v). AList.update v k acc) [] d"

text \<open>
  An operation of a controller runs on the controller's state and either returns a value
  or raises; the state reached is kept in both cases, so commands submitted before a
  raise stay submitted.
\<close>

type_synonym ('s, 'a) action = "'s \<Rightarrow> (py_error + 'a) \<times> 's"

definition ok :: "'a \<Rightarrow> ('s, 'a) action" where
  "ok a = (\<lambda>s. (Inr a, s))"

definition lift :: "py_error + 'a \<Rightarrow> ('s, 'a) action" where
  "lift r = (\<lambda>s. (r, s))"

definition andthen :: "('s, 'a) action \<Rightarrow> ('a \<Rightarrow> ('s, 'b) action) \<Rightarrow> ('s, 'b) action" where
  "andthen m f = (\<lambda>s. case m s of (Inl e, s') \<Rightarrow> (Inl e, s') | (Inr a, s') \<Rightarrow> f a s')"

section \<open>Device State Store and Command Executor\<close>

text \<open>
  Both collaborators live outside the two source files. \<open>states\<close> is the Device State
  Store, by channel name; \<open>commands\<close> is the sequence of submissions made through the
  Command Executor, oldest first, each a command name with its positional parameters.
\<close>

record 'f device =
  states :: "string \<Rightarrow> 'f pyval"
  commands :: "(string \<times> 'f pyval list) list"

text \<open>
  Modelled from the spec: \<open>select_state\<close> (the entity base class is not among the
  sources) is a synchronous read from the Device State Store that returns whatever was
  last received for that channel.
\<close>

definition select_state :: "string \<Rightarrow> (('f, 'z) device_scheme, 'f pyval) action" where
  "select_state state_name = (\<lambda>s. (Inr (states s state_name), s))"

text \<open>
  Modelled from the spec: \<open>async_execute_command\<close> (not among the sources) submits a
  named command with positional parameters. Every awaited submission is taken to be
  accepted and is recorded in order.
\<close>

definition async_execute_command ::
  "string \<Rightarrow> 'f pyval list \<Rightarrow> (('f, 'z) device_scheme, unit) action" where
  "async_execute_command command_name args =
     (\<lambda>s. (Inr (), s\<lparr>commands := commands s @ [(command_name, args)]\<rparr>))"

text \<open>
  Python hands out the stored object itself, so a record read from a channel is shared
  with the store: the item assignment \<open>value[key] = v\<close> on it writes into the store.
  On a value that is not a record the assignment raises TypeError.
\<close>

definition state_setitem ::
  "string \<Rightarrow> string \<Rightarrow> 'f pyval \<Rightarrow> (('f, 'z) device_scheme, unit) action" where
  "state_setitem state_name key v =
     (\<lambda>s. case states s state_name of
             PDict d \<Rightarrow>
               (Inr (), s\<lparr>states := (states s)(state_name := PDict (AList.update key v d))\<rparr>)
           | PNone \<Rightarrow> (Inl TypeError, s)
           | PStr x \<Rightarrow> (Inl TypeError, s)
           | PInt i \<Rightarrow> (Inl TypeError, s)
           | PFloat x \<Rightarrow> (Inl TypeError, s))"

section \<open>Constants of Home Assistant used by the sources\<close>

definition STATE_ON :: string where "STATE_ON = ''on''"
definition STATE_OFF :: string where "STATE_OFF = ''off''"
definition STATE_UNKNOWN :: string where "STATE_UNKNOWN = ''unknown''"
definition STATE_ECO :: string where "STATE_ECO = ''eco''"
definition STATE_HIGH_DEMAND :: string where "STATE_HIGH_DEMAND = ''high_demand''"
definition ATTR_TEMPERATURE :: string where "ATTR_TEMPERATURE = ''temperature''"
definition FAN_AUTO :: string where "FAN_AUTO = ''auto''"

section \<open>domestic\_hot\_water\_production.py\<close>

definition CORE_OPERATING_MODE_STATE :: string where
  "CORE_OPERATING_MODE_STATE = ''core:OperatingModeState''"
definition IO_DHW_MODE_STATE :: string where
  "IO_DHW_MODE_STATE = ''io:DHWModeState''"
definition IO_DHW_BOOST_MODE_STATE :: string where
  "IO_DHW_BOOST_MODE_STATE = ''io:DHWBoostModeState''"

definition STATE_MANUAL :: string where "STATE_MANUAL = ''manual''"
definition STATE_AUTO :: string where "STATE_AUTO = ''auto''"
definition STATE_ABSENCE :: string where "STATE_ABSENCE = ''absence''"
definition STATE_RELAUNCH :: string where "STATE_RELAUNCH = ''relaunch''"

definition COMMAND_SET_TARGET_TEMPERATURE :: string where
  "COMMAND_SET_TARGET_TEMPERATURE = ''setTargetTemperature''"
definition COMMAND_SET_DHW_MODE :: string where
  "COMMAND_SET_DHW_MODE = ''setDHWMode''"
definition COMMAND_SET_CURRENT_OPERATING_MODE :: string where
  "COMMAND_SET_CURRENT_OPERATING_MODE = ''setCurrentOperatingMode''"
definition COMMAND_SET_BOOST_MODE_DURATION :: string where
  "COMMAND_SET_BOOST_MODE_DURATION = ''setBoostModeDuration''"
definition COMMAND_SET_AWAY_MODE_DURATION :: string where
  "COMMAND_SET_AWAY_MODE_DURATION = ''setAwayModeDuration''"

definition MODE_AUTO :: string where "MODE_AUTO = ''autoMode''"
definition MODE_BOOST :: string where "MODE_BOOST = ''boost''"
definition MODE_MANUAL_ECO_ACTIVE :: string where
  "MODE_MANUAL_ECO_ACTIVE = ''manualEcoActive''"
definition MODE_MANUAL_ECO_INACTIVE :: string where
  "MODE_MANUAL_ECO_INACTIVE = ''manualEcoInactive''"

definition TAHOMA_TO_OPERATION_MODE :: "('f pyval \<times> string) list" where
  "TAHOMA_TO_OPERATION_MODE =
     [(PStr MODE_MANUAL_ECO_ACTIVE, STATE_ECO),
      (PStr MODE_MANUAL_ECO_INACTIVE, STATE_MANUAL),
      (PStr MODE_AUTO, STATE_AUTO),
      (PStr MODE_BOOST, STATE_HIGH_DEMAND)]"

definition OPERATION_MODE_TO_TAHOMA :: "(string \<times> 'f pyval) list" where
  "OPERATION_MODE_TO_TAHOMA = dict_invert TAHOMA_TO_OPERATION_MODE"

definition current_operation :: "(('f, 'z) device_scheme, string) action" where
  "current_operation =
     andthen (select_state IO_DHW_BOOST_MODE_STATE) (\<lambda>boost.
       if boost = PStr STATE_ON then ok STATE_HIGH_DEMAND
       else andthen (select_state IO_DHW_MODE_STATE) (\<lambda>mode.
              lift (getitem_val TAHOMA_TO_OPERATION_MODE mode)))"

definition operation_list :: "string list" where
  "operation_list = map fst (OPERATION_MODE_TO_TAHOMA :: (string \<times> unit pyval) list)"

definition async_set_temperature ::
  "(string \<times> 'f pyval) list \<Rightarrow> (('f, 'z) device_scheme, unit) action" where
  "async_set_temperature kwargs =
     (let target_temperature = dict_get kwargs ATTR_TEMPERATURE
      in async_execute_command COMMAND_SET_TARGET_TEMPERATURE [target_temperature])"

definition async_set_operation_mode :: "string \<Rightarrow> (('f, 'z) device_scheme, unit) action" where
  "async_set_operation_mode operation_mode =
     andthen current_operation (\<lambda>current.
     andthen
       (if current = STATE_HIGH_DEMAND \<and> operation_mode \<noteq> STATE_HIGH_DEMAND
        then async_execute_command COMMAND_SET_CURRENT_OPERATING_MODE
               [PDict [(STATE_RELAUNCH, PStr STATE_OFF), (STATE_ABSENCE, PStr STATE_OFF)]]
        else ok ()) (\<lambda>u.
     if operation_mode = STATE_HIGH_DEMAND
     then andthen
            (async_execute_command COMMAND_SET_CURRENT_OPERATING_MODE
               [PDict [(STATE_RELAUNCH, PStr STATE_ON), (STATE_ABSENCE, PStr STATE_OFF)]])
            (\<lambda>u. async_execute_command COMMAND_SET_BOOST_MODE_DURATION [PInt 1])
     else andthen (lift (getitem OPERATION_MODE_TO_TAHOMA operation_mode)) (\<lambda>mode.
            async_execute_command COMMAND_SET_DHW_MODE [mode])))"




section \<open>atlantic\_heat\_recovery\_ventilation.py\<close>

definition FAN_BOOST :: string where "FAN_BOOST = ''home_boost''"
definition FAN_KITCHEN :: string where "FAN_KITCHEN = ''kitchen_boost''"
definition FAN_AWAY :: string where "FAN_AWAY = ''away''"
definition FAN_BYPASS :: string where "FAN_BYPASS = ''bypass_boost''"

definition PRESET_AUTO :: string where "PRESET_AUTO = ''auto''"
definition PRESET_PROG :: string where "PRESET_PROG = ''prog''"
definition PRESET_MANUAL :: string where "PRESET_MANUAL = ''manual''"

definition COMMAND_SET_AIR_DEMAND_MODE :: string where
  "COMMAND_SET_AIR_DEMAND_MODE = ''setAirDemandMode''"
definition COMMAND_SET_VENTILATION_CONFIGURATION_MODE :: string where
  "COMMAND_SET_VENTILATION_CONFIGURATION_MODE = ''setVentilationConfigurationMode''"
definition COMMAND_SET_VENTILATION_MODE :: string where
  "COMMAND_SET_VENTILATION_MODE = ''setVentilationMode''"
definition COMMAND_REFRESH_VENTILATION_STATE :: string where
  "COMMAND_REFRESH_VENTILATION_STATE = ''refreshVentilationState''"
definition COMMAND_REFRESH_VENTILATION_CONFIGURATION_MODE :: string where
  "COMMAND_REFRESH_VENTILATION_CONFIGURATION_MODE = ''refreshVentilationConfigurationMode''"

definition IO_AIR_DEMAND_MODE_STATE :: string where
  "IO_AIR_DEMAND_MODE_STATE = ''io:AirDemandModeState''"
definition IO_VENTILATION_MODE_STATE :: string where
  "IO_VENTILATION_MODE_STATE = ''io:VentilationModeState''"
definition IO_VENTILATION_CONFIGURATION_MODE_STATE :: string where
  "IO_VENTILATION_CONFIGURATION_MODE_STATE = ''io:VentilationConfigurationModeState''"

definition TAHOMA_TO_FAN_MODES :: "('f pyval \<times> string) list" where
  "TAHOMA_TO_FAN_MODES =
     [(PStr ''auto'', FAN_AUTO),
      (PStr ''away'', FAN_BOOST),
      (PStr ''boost'', FAN_KITCHEN),
      (PStr ''high'', FAN_AWAY),
      (PNone, FAN_BYPASS)]"

definition FAN_MODES_TO_TAHOMA :: "(string \<times> 'f pyval) list" where
  "FAN_MODES_TO_TAHOMA = dict_invert TAHOMA_TO_FAN_MODES"

definition PRESET_MODES :: "string list" where
  "PRESET_MODES = [PRESET_AUTO, PRESET_PROG, PRESET_MANUAL]"

text \<open>
  A state of Home Assistant's state machine, as the change notification delivers it;
  \<open>state\<close> is always a string. Two states are equal when all their fields are.
\<close>

record 'a ha_state =
  entity_id :: string
  state :: string
  attributes :: 'a

text \<open>What the controller writes to its logger.\<close>

datatype log_record = LogWarning string string | LogError string string

text \<open>
  The ventilation controller: the device it wraps, the fields \<open>__init__\<close> sets to
  \<open>None\<close>, the records logged and the number of \<open>schedule_update_ha_state\<close> calls.
\<close>

record 'f ventilation = "'f device" +
  self_temp_sensor_entity_id :: "string option"
  self_current_temperature :: "'f option"
  logged :: "log_record list"
  scheduled_updates :: nat

definition schedule_update_ha_state :: "(('f, 'z) ventilation_scheme, unit) action" where
  "schedule_update_ha_state = (\<lambda>s. (Inr (), s\<lparr>scheduled_updates := Suc (scheduled_updates s)\<rparr>))"

text \<open>
  \<open>float\<close> is Python's conversion of a string, a parameter here: \<open>None\<close> stands for
  the ValueError it raises on a string that is not a number, which \<open>update_temp\<close>
  catches and logs.
\<close>

definition update_temp ::
  "(string \<Rightarrow> 'f option) \<Rightarrow> 'a ha_state option \<Rightarrow> (('f, 'z) ventilation_scheme, unit) action" where
  "update_temp float st =
     (case st of
        None \<Rightarrow> ok ()
      | Some x \<Rightarrow>
          if state x = STATE_UNKNOWN then ok ()
          else (case float (state x) of
                  Some t \<Rightarrow> (\<lambda>s. (Inr (), s\<lparr>self_current_temperature := Some t\<rparr>))
                | None \<Rightarrow>
                    (\<lambda>s. (Inr (), s\<lparr>logged := logged s @
                       [LogError ''Unable to update from sensor: %s'' (state x)]\<rparr>))))"

definition async_temp_sensor_changed ::
  "(string \<Rightarrow> 'f option) \<Rightarrow> string \<Rightarrow> 'a ha_state option \<Rightarrow> 'a ha_state option \<Rightarrow>
     (('f, 'z) ventilation_scheme, unit) action" where
  "async_temp_sensor_changed float entity old_state new_state =
     (if new_state = None \<or> old_state = new_state then ok ()
      else andthen (update_temp float new_state) (\<lambda>u. schedule_update_ha_state))"

definition current_temperature :: "(('f, 'z) ventilation_scheme, 'f option) action" where
  "current_temperature = (\<lambda>s. (Inr (self_current_temperature s), s))"

definition async_set_hvac_mode :: "string \<Rightarrow> (('f, 'z) device_scheme, unit) action" where
  "async_set_hvac_mode hvac_mode = ok ()"

definition preset_mode :: "(('f, 'z) device_scheme, string option) action" where
  "preset_mode =
     andthen (select_state IO_VENTILATION_CONFIGURATION_MODE_STATE)
       (\<lambda>state_ventilation_configuration.
     andthen (select_state IO_VENTILATION_MODE_STATE) (\<lambda>state_ventilation_mode.
     andthen (lift (val_get state_ventilation_mode ''prog'')) (\<lambda>state_prog.
       if state_prog = PStr ''on'' then ok (Some PRESET_PROG)
       else if state_ventilation_configuration = PStr ''comfort'' then ok (Some PRESET_AUTO)
       else if state_ventilation_configuration = PStr ''standard'' then ok (Some PRESET_MANUAL)
       else ok None)))"

text \<open>
  The keyword parameters are \<open>None\<close> or a string; a parameter is applied when it is
  truthy, that is a non-empty string. \<open>ventilation_mode_state\<close> is the object the
  store holds, not a copy: the assignments on it go through \<open>state_setitem\<close>, and the
  payload submitted at the end is that object as it then stands, read from the store
  again.
\<close>

definition set_ventilation_mode ::
  "string option \<Rightarrow> string option \<Rightarrow> (('f, 'z) device_scheme, unit) action" where
  "set_ventilation_mode cooling prog =
     andthen (select_state IO_VENTILATION_MODE_STATE) (\<lambda>ventilation_mode_state.
     andthen
       (case cooling of
          None \<Rightarrow> ok ()
        | Some c \<Rightarrow>
            if c \<noteq> [] then state_setitem IO_VENTILATION_MODE_STATE ''cooling'' (PStr c)
            else ok ()) (\<lambda>u.
     andthen
       (case prog of
          None \<Rightarrow> ok ()
        | Some p \<Rightarrow>
            if p \<noteq> [] then state_setitem IO_VENTILATION_MODE_STATE ''prog'' (PStr p)
            else ok ()) (\<lambda>u.
     andthen (select_state IO_VENTILATION_MODE_STATE) (\<lambda>payload.
       async_execute_command COMMAND_SET_VENTILATION_MODE [payload]))))"

definition async_set_preset_mode :: "string \<Rightarrow> (('f, 'z) device_scheme, unit) action" where
  "async_set_preset_mode preset =
     andthen
       (if preset = PRESET_AUTO
        then andthen
               (async_execute_command COMMAND_SET_VENTILATION_CONFIGURATION_MODE
                  [PStr ''comfort''])
               (\<lambda>u. set_ventilation_mode None (Some ''off''))
        else ok ()) (\<lambda>u.
     andthen
       (if preset = PRESET_PROG
        then andthen
               (async_execute_command COMMAND_SET_VENTILATION_CONFIGURATION_MODE
                  [PStr ''standard''])
               (\<lambda>u. set_ventilation_mode None (Some ''on''))
        else ok ()) (\<lambda>u.
     andthen
       (if preset = PRESET_MANUAL
        then andthen
               (async_execute_command COMMAND_SET_VENTILATION_CONFIGURATION_MODE
                  [PStr ''standard''])
               (\<lambda>u. set_ventilation_mode None (Some ''off''))
        else ok ()) (\<lambda>u.
     andthen (async_execute_command COMMAND_REFRESH_VENTILATION_STATE []) (\<lambda>u.
       async_execute_command COMMAND_REFRESH_VENTILATION_CONFIGURATION_MODE []))))"

definition fan_mode :: "(('f, 'z) device_scheme, string) action" where
  "fan_mode =
     andthen (select_state IO_VENTILATION_MODE_STATE) (\<lambda>ventilation_mode_state.
     andthen (lift (val_get ventilation_mode_state ''cooling'')) (\<lambda>cooling.
       if cooling = PStr ''on'' then ok FAN_BYPASS
       else andthen (select_state IO_AIR_DEMAND_MODE_STATE) (\<lambda>air_demand.
              lift (getitem_val TAHOMA_TO_FAN_MODES air_demand))))"

definition fan_modes :: "string list" where
  "fan_modes = map fst (FAN_MODES_TO_TAHOMA :: (string \<times> unit pyval) list)"

definition async_set_fan_mode :: "string \<Rightarrow> (('f, 'z) device_scheme, unit) action" where
  "async_set_fan_mode mode =
     andthen
       (if mode = FAN_BYPASS
        then async_execute_command COMMAND_SET_AIR_DEMAND_MODE [PStr ''auto'']
        else andthen (lift (getitem FAN_MODES_TO_TAHOMA mode)) (\<lambda>v.
               async_execute_command COMMAND_SET_AIR_DEMAND_MODE [v])) (\<lambda>u.
     andthen (async_execute_command COMMAND_REFRESH_VENTILATION_STATE []) (\<lambda>u.
       async_execute_command COMMAND_REFRESH_VENTILATION_CONFIGURATION_MODE []))"

section \<open>Evaluating the tables and the effects\<close>

lemmas ha_consts = STATE_ON_def STATE_OFF_def STATE_UNKNOWN_def STATE_ECO_def
  STATE_HIGH_DEMAND_def ATTR_TEMPERATURE_def FAN_AUTO_def

lemmas dhw_consts = CORE_OPERATING_MODE_STATE_def IO_DHW_MODE_STATE_def
  IO_DHW_BOOST_MODE_STATE_def STATE_MANUAL_def STATE_AUTO_def STATE_ABSENCE_def
  STATE_RELAUNCH_def COMMAND_SET_TARGET_TEMPERATURE_def COMMAND_SET_DHW_MODE_def
  COMMAND_SET_CURRENT_OPERATING_MODE_def COMMAND_SET_BOOST_MODE_DURATION_def
  COMMAND_SET_AWAY_MODE_DURATION_def MODE_AUTO_def MODE_BOOST_def
  MODE_MANUAL_ECO_ACTIVE_def MODE_MANUAL_ECO_INACTIVE_def

lemmas hrv_consts = FAN_BOOST_def FAN_KITCHEN_def FAN_AWAY_def FAN_BYPASS_def
  PRESET_AUTO_def PRESET_PROG_def PRESET_MANUAL_def COMMAND_SET_AIR_DEMAND_MODE_def
  COMMAND_SET_VENTILATION_CONFIGURATION_MODE_def COMMAND_SET_VENTILATION_MODE_def
  COMMAND_REFRESH_VENTILATION_STATE_def COMMAND_REFRESH_VENTILATION_CONFIGURATION_MODE_def
  IO_AIR_DEMAND_MODE_STATE_def IO_VENTILATION_MODE_STATE_def
  IO_VENTILATION_CONFIGURATION_MODE_STATE_def PRESET_MODES_def

lemmas action_defs = ok_def lift_def andthen_def select_state_def async_execute_command_def

text \<open>The two reverse tables, as the comprehensions build them.\<close>

lemma OPERATION_MODE_TO_TAHOMA_eq:
  "OPERATION_MODE_TO_TAHOMA =
     [(STATE_ECO, PStr MODE_MANUAL_ECO_ACTIVE), (STATE_MANUAL, PStr MODE_MANUAL_ECO_INACTIVE),
      (STATE_AUTO, PStr MODE_AUTO), (STATE_HIGH_DEMAND, PStr MODE_BOOST)]"
  by (simp add: OPERATION_MODE_TO_TAHOMA_def TAHOMA_TO_OPERATION_MODE_def dict_invert_def
      ha_consts dhw_consts)

lemma FAN_MODES_TO_TAHOMA_eq:
  "FAN_MODES_TO_TAHOMA =
     [(FAN_AUTO, PStr ''auto''), (FAN_BOOST, PStr ''away''), (FAN_KITCHEN, PStr ''boost''),
      (FAN_AWAY, PStr ''high''), (FAN_BYPASS, PNone)]"
  by (simp add: FAN_MODES_TO_TAHOMA_def TAHOMA_TO_FAN_MODES_def dict_invert_def
      ha_consts hrv_consts)

section \<open>Hot-water controller: setting the target temperature\<close>

text \<open>
  C1, as the code has it. \<open>async_set_temperature\<close> has no test for a missing
  temperature: it always submits exactly one \<open>setTargetTemperature\<close> command and never
  raises. With the parameter absent the command carries \<open>None\<close>; with the parameter
  present it carries the given value.
\<close>

theorem set_temperature_one_command:
  "(map_of kwargs ATTR_TEMPERATURE = None \<longrightarrow>
      async_set_temperature kwargs s =
        (Inr (), s\<lparr>commands := commands s @ [(COMMAND_SET_TARGET_TEMPERATURE, [PNone])]\<rparr>))
   \<and> (map_of kwargs ATTR_TEMPERATURE = Some v \<longrightarrow>
      async_set_temperature kwargs s =
        (Inr (), s\<lparr>commands := commands s @ [(COMMAND_SET_TARGET_TEMPERATURE, [v])]\<rparr>))"
  by (simp add: async_set_temperature_def dict_get_def async_execute_command_def)

text \<open>
  The theorem at a request without a temperature and at a request for 55 degrees, on a
  device with an empty store and nothing submitted yet.
\<close>

theorem set_temperature_one_command_witness:
  "async_set_temperature [] \<lparr>states = (\<lambda>c. PNone :: real pyval), commands = []\<rparr>
     = (Inr (), \<lparr>states = (\<lambda>c. PNone), commands = [(''setTargetTemperature'', [PNone])]\<rparr>)
   \<and> async_set_temperature [(''temperature'', PFloat 55)]
        \<lparr>states = (\<lambda>c. PNone :: real pyval), commands = []\<rparr>
     = (Inr (), \<lparr>states = (\<lambda>c. PNone),
          commands = [(''setTargetTemperature'', [PFloat 55])]\<rparr>)"
  using set_temperature_one_command [of "[]" "\<lparr>states = (\<lambda>c. PNone :: real pyval), commands = []\<rparr>"]
    set_temperature_one_command [of "[(''temperature'', PFloat 55)]"
      "\<lparr>states = (\<lambda>c. PNone :: real pyval), commands = []\<rparr>" "PFloat (55::real)"]
  by (simp add: ha_consts dhw_consts)

text \<open>
  C1 as the spec words it fails: called with no temperature in the request, the
  operation submits one command, not zero.
\<close>

theorem set_temperature_absent_counterexample:
  "commands (snd (async_set_temperature []
      \<lparr>states = (\<lambda>c. PNone :: real pyval), commands = []\<rparr>))
   = [(''setTargetTemperature'', [PNone])]"
  by (simp add: async_set_temperature_def dict_get_def async_execute_command_def dhw_consts)

section \<open>Hot-water controller: reading and setting the operation mode\<close>

text \<open>The read, evaluated: the boost flag first, then the table.\<close>

lemma current_operation_eval:
  "current_operation s =
     (if states s IO_DHW_BOOST_MODE_STATE = PStr STATE_ON then (Inr STATE_HIGH_DEMAND, s)
      else (getitem_val TAHOMA_TO_OPERATION_MODE (states s IO_DHW_MODE_STATE), s))"
  by (simp add: current_operation_def action_defs)

text \<open>
  C4. For every raw device state, \<open>current_operation\<close> returns HighDemand whenever the
  DHWBoostModeState channel equals \<open>on\<close>, whatever DHWModeState holds. When the boost
  channel is not \<open>on\<close>, it returns the table-mapped value for each of the four raw mode
  values (manualEcoActive to Eco, manualEcoInactive to Manual, autoMode to Auto, boost to
  HighDemand), and for a raw DHWModeState value that is none of the four the table
  lookup fails: with KeyError, or with TypeError when the raw value is a record, which
  cannot be a key. The read never changes the state.
\<close>

theorem current_operation_read:
  "(states s IO_DHW_BOOST_MODE_STATE = PStr STATE_ON \<longrightarrow>
      current_operation s = (Inr STATE_HIGH_DEMAND, s))
   \<and> (states s IO_DHW_BOOST_MODE_STATE \<noteq> PStr STATE_ON \<longrightarrow>
        (states s IO_DHW_MODE_STATE = PStr MODE_MANUAL_ECO_ACTIVE \<longrightarrow>
           current_operation s = (Inr STATE_ECO, s))
      \<and> (states s IO_DHW_MODE_STATE = PStr MODE_MANUAL_ECO_INACTIVE \<longrightarrow>
           current_operation s = (Inr STATE_MANUAL, s))
      \<and> (states s IO_DHW_MODE_STATE = PStr MODE_AUTO \<longrightarrow>
           current_operation s = (Inr STATE_AUTO, s))
      \<and> (states s IO_DHW_MODE_STATE = PStr MODE_BOOST \<longrightarrow>
           current_operation s = (Inr STATE_HIGH_DEMAND, s))
      \<and> (states s IO_DHW_MODE_STATE \<notin>
            {PStr MODE_MANUAL_ECO_ACTIVE, PStr MODE_MANUAL_ECO_INACTIVE, PStr MODE_AUTO,
             PStr MODE_BOOST} \<longrightarrow>
           current_operation s =
             (Inl (if hashable (states s IO_DHW_MODE_STATE) then KeyError else TypeError), s)))"
  by (simp add: current_operation_eval getitem_val_def getitem_def
      TAHOMA_TO_OPERATION_MODE_def dhw_consts)

text \<open>
  The theorem on three stores: boost on over autoMode, boost off over autoMode, and
  boost off over a raw mode the table does not list.
\<close>

theorem current_operation_read_witness:
  "current_operation
      \<lparr>states = (\<lambda>c. PNone :: real pyval)
         (''io:DHWBoostModeState'' := PStr ''on'', ''io:DHWModeState'' := PStr ''autoMode''),
       commands = []\<rparr>
     = (Inr ''high_demand'',
        \<lparr>states = (\<lambda>c. PNone)
           (''io:DHWBoostModeState'' := PStr ''on'', ''io:DHWModeState'' := PStr ''autoMode''),
         commands = []\<rparr>)
   \<and> current_operation
      \<lparr>states = (\<lambda>c. PNone :: real pyval)
         (''io:DHWBoostModeState'' := PStr ''off'', ''io:DHWModeState'' := PStr ''autoMode''),
       commands = []\<rparr>
     = (Inr ''auto'',
        \<lparr>states = (\<lambda>c. PNone)
           (''io:DHWBoostModeState'' := PStr ''off'', ''io:DHWModeState'' := PStr ''autoMode''),
         commands = []\<rparr>)
   \<and> current_operation
      \<lparr>states = (\<lambda>c. PNone :: real pyval)
         (''io:DHWBoostModeState'' := PStr ''off'', ''io:DHWModeState'' := PStr ''standby''),
       commands = []\<rparr>
     = (Inl KeyError,
        \<lparr>states = (\<lambda>c. PNone)
           (''io:DHWBoostModeState'' := PStr ''off'', ''io:DHWModeState'' := PStr ''standby''),
         commands = []\<rparr>)"
  using
    current_operation_read [of "\<lparr>states = (\<lambda>c. PNone :: real pyval)
         (''io:DHWBoostModeState'' := PStr ''on'', ''io:DHWModeState'' := PStr ''autoMode''),
       commands = []\<rparr>"]
    current_operation_read [of "\<lparr>states = (\<lambda>c. PNone :: real pyval)
         (''io:DHWBoostModeState'' := PStr ''off'', ''io:DHWModeState'' := PStr ''autoMode''),
       commands = []\<rparr>"]
    current_operation_read [of "\<lparr>states = (\<lambda>c. PNone :: real pyval)
         (''io:DHWBoostModeState'' := PStr ''off'', ''io:DHWModeState'' := PStr ''standby''),
       commands = []\<rparr>"]
  by (simp add: ha_consts dhw_consts)

text \<open>A read that returns leaves the controller as it was.\<close>

lemma current_operation_state: "snd (current_operation s) = s"
  by (simp add: current_operation_eval)

lemma current_operation_returns:
  assumes "fst (current_operation s) = Inr current"
  shows "current_operation s = (Inr current, s)"
  using assms current_operation_state [of s] by (cases "current_operation s") simp

lemma reverse_operation_modes:
  "getitem OPERATION_MODE_TO_TAHOMA STATE_ECO = Inr (PStr MODE_MANUAL_ECO_ACTIVE)"
  "getitem OPERATION_MODE_TO_TAHOMA STATE_MANUAL = Inr (PStr MODE_MANUAL_ECO_INACTIVE)"
  "getitem OPERATION_MODE_TO_TAHOMA STATE_AUTO = Inr (PStr MODE_AUTO)"
  "getitem OPERATION_MODE_TO_TAHOMA STATE_HIGH_DEMAND = Inr (PStr MODE_BOOST)"
  by (simp_all add: OPERATION_MODE_TO_TAHOMA_eq getitem_def ha_consts dhw_consts)

text \<open>
  The transaction from a raw state on which the read succeeds, and from one on which
  it fails.
\<close>

lemma set_operation_mode_read_ok:
  assumes "fst (current_operation s) = Inr current"
  shows
    "(current = STATE_HIGH_DEMAND \<and> operation_mode \<noteq> STATE_HIGH_DEMAND \<longrightarrow>
        (\<exists>rest. commands (snd (async_set_operation_mode operation_mode s)) =
           commands s @
             (COMMAND_SET_CURRENT_OPERATING_MODE,
               [PDict [(STATE_RELAUNCH, PStr STATE_OFF), (STATE_ABSENCE, PStr STATE_OFF)]])
             # rest))
     \<and> (operation_mode = STATE_HIGH_DEMAND \<longrightarrow>
          async_set_operation_mode operation_mode s =
            (Inr (), s\<lparr>commands := commands s @
               [(COMMAND_SET_CURRENT_OPERATING_MODE,
                  [PDict [(STATE_RELAUNCH, PStr STATE_ON), (STATE_ABSENCE, PStr STATE_OFF)]]),
                (COMMAND_SET_BOOST_MODE_DURATION, [PInt 1])]\<rparr>)
          \<and> COMMAND_SET_DHW_MODE \<notin>
              {COMMAND_SET_CURRENT_OPERATING_MODE, COMMAND_SET_BOOST_MODE_DURATION})
     \<and> (operation_mode \<in> {STATE_ECO, STATE_MANUAL, STATE_AUTO} \<longrightarrow>
          (\<exists>mode. getitem OPERATION_MODE_TO_TAHOMA operation_mode = Inr mode
             \<and> async_set_operation_mode operation_mode s =
                 (Inr (), s\<lparr>commands := commands s @
                    (if current = STATE_HIGH_DEMAND
                     then [(COMMAND_SET_CURRENT_OPERATING_MODE,
                             [PDict [(STATE_RELAUNCH, PStr STATE_OFF),
                                     (STATE_ABSENCE, PStr STATE_OFF)]])]
                     else [])
                    @ [(COMMAND_SET_DHW_MODE, [mode])]\<rparr>)))"
proof -
  have run: "current_operation s = (Inr current, s)"
    using assms by (rule current_operation_returns)
  have clear_first:
    "current = STATE_HIGH_DEMAND \<and> operation_mode \<noteq> STATE_HIGH_DEMAND \<longrightarrow>
       (\<exists>rest. commands (snd (async_set_operation_mode operation_mode s)) =
          commands s @
            (COMMAND_SET_CURRENT_OPERATING_MODE,
              [PDict [(STATE_RELAUNCH, PStr STATE_OFF), (STATE_ABSENCE, PStr STATE_OFF)]])
            # rest)"
    by (cases "getitem (OPERATION_MODE_TO_TAHOMA :: (string \<times> 'a pyval) list) operation_mode")
      (simp_all add: async_set_operation_mode_def andthen_def ok_def lift_def
        async_execute_command_def run)
  have enter_boost:
    "operation_mode = STATE_HIGH_DEMAND \<longrightarrow>
       async_set_operation_mode operation_mode s =
         (Inr (), s\<lparr>commands := commands s @
            [(COMMAND_SET_CURRENT_OPERATING_MODE,
               [PDict [(STATE_RELAUNCH, PStr STATE_ON), (STATE_ABSENCE, PStr STATE_OFF)]]),
             (COMMAND_SET_BOOST_MODE_DURATION, [PInt 1])]\<rparr>)"
    by (simp add: async_set_operation_mode_def andthen_def ok_def async_execute_command_def run)
  have names: "COMMAND_SET_DHW_MODE \<notin>
      {COMMAND_SET_CURRENT_OPERATING_MODE, COMMAND_SET_BOOST_MODE_DURATION}"
    by (simp add: dhw_consts)
  have set_mode:
    "operation_mode \<in> {STATE_ECO, STATE_MANUAL, STATE_AUTO} \<longrightarrow>
       (\<exists>mode. getitem OPERATION_MODE_TO_TAHOMA operation_mode = Inr mode
          \<and> async_set_operation_mode operation_mode s =
              (Inr (), s\<lparr>commands := commands s @
                 (if current = STATE_HIGH_DEMAND
                  then [(COMMAND_SET_CURRENT_OPERATING_MODE,
                          [PDict [(STATE_RELAUNCH, PStr STATE_OFF),
                                  (STATE_ABSENCE, PStr STATE_OFF)]])]
                  else [])
                 @ [(COMMAND_SET_DHW_MODE, [mode])]\<rparr>))"
  proof
    assume supported: "operation_mode \<in> {STATE_ECO, STATE_MANUAL, STATE_AUTO}"
    then have not_boost: "operation_mode \<noteq> STATE_HIGH_DEMAND"
      by (auto simp: ha_consts dhw_consts)
    from supported obtain mode :: "'a pyval"
      where mode: "getitem OPERATION_MODE_TO_TAHOMA operation_mode = Inr mode"
      using reverse_operation_modes by auto
    have "async_set_operation_mode operation_mode s =
        (Inr (), s\<lparr>commands := commands s @
           (if current = STATE_HIGH_DEMAND
            then [(COMMAND_SET_CURRENT_OPERATING_MODE,
                    [PDict [(STATE_RELAUNCH, PStr STATE_OFF),
                            (STATE_ABSENCE, PStr STATE_OFF)]])]
            else [])
           @ [(COMMAND_SET_DHW_MODE, [mode])]\<rparr>)"
      using not_boost mode
      by (simp add: async_set_operation_mode_def andthen_def ok_def lift_def
          async_execute_command_def run)
    with mode show "\<exists>mode. getitem OPERATION_MODE_TO_TAHOMA operation_mode = Inr mode
          \<and> async_set_operation_mode operation_mode s =
              (Inr (), s\<lparr>commands := commands s @
                 (if current = STATE_HIGH_DEMAND
                  then [(COMMAND_SET_CURRENT_OPERATING_MODE,
                          [PDict [(STATE_RELAUNCH, PStr STATE_OFF),
                                  (STATE_ABSENCE, PStr STATE_OFF)]])]
                  else [])
                 @ [(COMMAND_SET_DHW_MODE, [mode])]\<rparr>)"
      by blast
  qed
  from clear_first enter_boost names set_mode show ?thesis
    by blast
qed

lemma set_operation_mode_read_fails:
  assumes "fst (current_operation s) = Inl e"
  shows "async_set_operation_mode operation_mode s = (Inl e, s)"
proof -
  have "current_operation s = (Inl e, s)"
    using assms current_operation_state [of s] by (cases "current_operation s") simp
  then show ?thesis
    by (simp add: async_set_operation_mode_def andthen_def)
qed

lemma current_operation_succeeds_iff:
  "(\<exists>current. fst (current_operation s) = Inr current) =
     (states s IO_DHW_BOOST_MODE_STATE = PStr STATE_ON
      \<or> states s IO_DHW_MODE_STATE \<in>
          {PStr MODE_MANUAL_ECO_ACTIVE, PStr MODE_MANUAL_ECO_INACTIVE, PStr MODE_AUTO,
           PStr MODE_BOOST})"
  by (auto simp: current_operation_eval getitem_val_def getitem_def
      TAHOMA_TO_OPERATION_MODE_def dhw_consts)

text \<open>
  C3, as the code has it. \<open>async_set_operation_mode\<close> reads \<open>current_operation\<close>
  before anything else. That read succeeds exactly when the boost channel is \<open>on\<close> or
  the raw DHWModeState is one of the four table values. From a raw state on which it
  succeeds, with \<open>current\<close> the operation read:
  (1) if \<open>current\<close> is HighDemand and the target is not, the
  \<open>setCurrentOperatingMode\<close> command with relaunch off and absence off is the first
  command submitted; (2) if the target is HighDemand, exactly
  \<open>setCurrentOperatingMode\<close> with relaunch on and absence off, then
  \<open>setBoostModeDuration\<close> with the value 1, are submitted, neither of them a
  \<open>setDHWMode\<close> command; (3) for each other supported target (Eco, Manual, Auto) exactly
  one \<open>setDHWMode\<close> command is submitted, carrying the reverse table's value for the
  target, after the clear-boost command when \<open>current\<close> is HighDemand.
  From a raw state on which the read fails with an error, the operation fails with that
  error for every target, and the controller is left as it was: no command is submitted.
\<close>

theorem set_operation_mode_transaction:
  "((\<exists>current. fst (current_operation s) = Inr current) =
      (states s IO_DHW_BOOST_MODE_STATE = PStr STATE_ON
       \<or> states s IO_DHW_MODE_STATE \<in>
           {PStr MODE_MANUAL_ECO_ACTIVE, PStr MODE_MANUAL_ECO_INACTIVE, PStr MODE_AUTO,
            PStr MODE_BOOST}))
   \<and> (fst (current_operation s) = Inr current \<longrightarrow>
      (current = STATE_HIGH_DEMAND \<and> operation_mode \<noteq> STATE_HIGH_DEMAND \<longrightarrow>
          (\<exists>rest. commands (snd (async_set_operation_mode operation_mode s)) =
             commands s @
               (COMMAND_SET_CURRENT_OPERATING_MODE,
                 [PDict [(STATE_RELAUNCH, PStr STATE_OFF), (STATE_ABSENCE, PStr STATE_OFF)]])
               # rest))
       \<and> (operation_mode = STATE_HIGH_DEMAND \<longrightarrow>
            async_set_operation_mode operation_mode s =
              (Inr (), s\<lparr>commands := commands s @
                 [(COMMAND_SET_CURRENT_OPERATING_MODE,
                    [PDict [(STATE_RELAUNCH, PStr STATE_ON), (STATE_ABSENCE, PStr STATE_OFF)]]),
                  (COMMAND_SET_BOOST_MODE_DURATION, [PInt 1])]\<rparr>)
            \<and> COMMAND_SET_DHW_MODE \<notin>
                {COMMAND_SET_CURRENT_OPERATING_MODE, COMMAND_SET_BOOST_MODE_DURATION})
       \<and> (operation_mode \<in> {STATE_ECO, STATE_MANUAL, STATE_AUTO} \<longrightarrow>
            (\<exists>mode. getitem OPERATION_MODE_TO_TAHOMA operation_mode = Inr mode
               \<and> async_set_operation_mode operation_mode s =
                   (Inr (), s\<lparr>commands := commands s @
                      (if current = STATE_HIGH_DEMAND
                       then [(COMMAND_SET_CURRENT_OPERATING_MODE,
                               [PDict [(STATE_RELAUNCH, PStr STATE_OFF),
                                       (STATE_ABSENCE, PStr STATE_OFF)]])]
                       else [])
                      @ [(COMMAND_SET_DHW_MODE, [mode])]\<rparr>))))
   \<and> (fst (current_operation s) = Inl e \<longrightarrow>
        async_set_operation_mode operation_mode s = (Inl e, s))"
proof -
  have succeeds: "(\<exists>current. fst (current_operation s) = Inr current) =
      (states s IO_DHW_BOOST_MODE_STATE = PStr STATE_ON
       \<or> states s IO_DHW_MODE_STATE \<in>
           {PStr MODE_MANUAL_ECO_ACTIVE, PStr MODE_MANUAL_ECO_INACTIVE, PStr MODE_AUTO,
            PStr MODE_BOOST})"
    by (rule current_operation_succeeds_iff)
  have failing: "fst (current_operation s) = Inl e \<longrightarrow>
      async_set_operation_mode operation_mode s = (Inl e, s)"
    by (simp add: set_operation_mode_read_fails)
  from succeeds failing set_operation_mode_read_ok [of s current operation_mode]
  show ?thesis
    by blast
qed

text \<open>
  The theorem on a device whose boost flag is on: the read gives HighDemand, the target
  Manual clears the boost first and then sets \<open>manualEcoInactive\<close>, and the target
  HighDemand submits the two boost commands. And on a device whose boost flag is off
  and whose raw mode is the unlisted \<open>standby\<close>: the read raises KeyError, and so does
  the operation for the target Eco, with nothing submitted.
\<close>

theorem set_operation_mode_transaction_witness:
  "fst (current_operation
      \<lparr>states = (\<lambda>c. PNone :: real pyval)(''io:DHWBoostModeState'' := PStr ''on''),
       commands = []\<rparr>) = Inr ''high_demand''
   \<and> async_set_operation_mode ''manual''
      \<lparr>states = (\<lambda>c. PNone :: real pyval)(''io:DHWBoostModeState'' := PStr ''on''),
       commands = []\<rparr>
     = (Inr (),
        \<lparr>states = (\<lambda>c. PNone)(''io:DHWBoostModeState'' := PStr ''on''),
         commands =
           [(''setCurrentOperatingMode'',
              [PDict [(''relaunch'', PStr ''off''), (''absence'', PStr ''off'')]]),
            (''setDHWMode'', [PStr ''manualEcoInactive''])]\<rparr>)
   \<and> async_set_operation_mode ''high_demand''
      \<lparr>states = (\<lambda>c. PNone :: real pyval)(''io:DHWBoostModeState'' := PStr ''on''),
       commands = []\<rparr>
     = (Inr (),
        \<lparr>states = (\<lambda>c. PNone)(''io:DHWBoostModeState'' := PStr ''on''),
         commands =
           [(''setCurrentOperatingMode'',
              [PDict [(''relaunch'', PStr ''on''), (''absence'', PStr ''off'')]]),
            (''setBoostModeDuration'', [PInt 1])]\<rparr>)
   \<and> fst (current_operation
      \<lparr>states = (\<lambda>c. PNone :: real pyval)
         (''io:DHWBoostModeState'' := PStr ''off'', ''io:DHWModeState'' := PStr ''standby''),
       commands = []\<rparr>) = Inl KeyError
   \<and> async_set_operation_mode ''eco''
      \<lparr>states = (\<lambda>c. PNone :: real pyval)
         (''io:DHWBoostModeState'' := PStr ''off'', ''io:DHWModeState'' := PStr ''standby''),
       commands = []\<rparr>
     = (Inl KeyError,
        \<lparr>states = (\<lambda>c. PNone)
           (''io:DHWBoostModeState'' := PStr ''off'', ''io:DHWModeState'' := PStr ''standby''),
         commands = []\<rparr>)"
proof -
  let ?s = "\<lparr>states = (\<lambda>c. PNone :: real pyval)(''io:DHWBoostModeState'' := PStr ''on''),
       commands = []\<rparr>"
  let ?bad = "\<lparr>states = (\<lambda>c. PNone :: real pyval)
         (''io:DHWBoostModeState'' := PStr ''off'', ''io:DHWModeState'' := PStr ''standby''),
       commands = []\<rparr>"
  have reads: "fst (current_operation ?s) = Inr STATE_HIGH_DEMAND"
    by (simp add: current_operation_eval ha_consts dhw_consts)
  have fails: "fst (current_operation ?bad) = Inl KeyError"
    by (simp add: current_operation_eval getitem_val_def getitem_def
        TAHOMA_TO_OPERATION_MODE_def ha_consts dhw_consts)
  have manual: "getitem (OPERATION_MODE_TO_TAHOMA :: (string \<times> real pyval) list) STATE_MANUAL
      = Inr (PStr MODE_MANUAL_ECO_INACTIVE)"
    by (rule reverse_operation_modes)
  show ?thesis
    using reads fails manual
      set_operation_mode_transaction [where s = ?s and current = STATE_HIGH_DEMAND
        and operation_mode = STATE_MANUAL]
      set_operation_mode_transaction [where s = ?s and current = STATE_HIGH_DEMAND
        and operation_mode = STATE_HIGH_DEMAND]
      set_operation_mode_transaction [where s = ?bad and e = KeyError
        and operation_mode = STATE_ECO]
    by (simp add: ha_consts dhw_consts)
qed

text \<open>
  C3 as the spec words it, for every starting raw state, fails: with the boost flag off
  and a raw mode outside the table the read raises KeyError, and the target HighDemand
  submits no command at all.
\<close>

theorem set_operation_mode_unmapped_counterexample:
  "fst (async_set_operation_mode ''high_demand''
      \<lparr>states = (\<lambda>c. PNone :: real pyval)
         (''io:DHWBoostModeState'' := PStr ''off'', ''io:DHWModeState'' := PStr ''standby''),
       commands = []\<rparr>) = Inl KeyError
   \<and> commands (snd (async_set_operation_mode ''high_demand''
      \<lparr>states = (\<lambda>c. PNone :: real pyval)
         (''io:DHWBoostModeState'' := PStr ''off'', ''io:DHWModeState'' := PStr ''standby''),
       commands = []\<rparr>)) = []"
  by (simp add: async_set_operation_mode_def andthen_def current_operation_eval
      getitem_val_def getitem_def TAHOMA_TO_OPERATION_MODE_def ha_consts dhw_consts)

section \<open>Ventilation controller: the preset transaction\<close>

text \<open>
  \<open>_set_ventilation_mode\<close> with a \<open>prog\<close> value: on a record it overwrites the
  \<open>prog\<close> entry in the store and submits the record; on any other value the item
  assignment raises before anything is submitted.
\<close>

lemma set_ventilation_mode_prog:
  assumes "states s IO_VENTILATION_MODE_STATE = PDict d" and "p \<noteq> []"
  shows "set_ventilation_mode None (Some p) s =
    (Inr (), s\<lparr>states := (states s)
                 (IO_VENTILATION_MODE_STATE := PDict (AList.update ''prog'' (PStr p) d)),
              commands := commands s @
                 [(COMMAND_SET_VENTILATION_MODE, [PDict (AList.update ''prog'' (PStr p) d)])]\<rparr>)"
  using assms by (simp add: set_ventilation_mode_def state_setitem_def action_defs)


text \<open>
  The whole transaction for a supported preset, with the VentilationModeState channel
  holding a record and, below, holding anything else.
\<close>

lemma set_preset_mode_supported:
  assumes "states s IO_VENTILATION_MODE_STATE = PDict d" and "preset \<in> set PRESET_MODES"
  shows "async_set_preset_mode preset s =
    (Inr (), s\<lparr>states := (states s)
                 (IO_VENTILATION_MODE_STATE :=
                    PDict (AList.update ''prog''
                      (PStr (if preset = PRESET_PROG then ''on'' else ''off'')) d)),
              commands := commands s @
                 [(COMMAND_SET_VENTILATION_CONFIGURATION_MODE,
                    [PStr (if preset = PRESET_AUTO then ''comfort'' else ''standard'')]),
                  (COMMAND_SET_VENTILATION_MODE,
                    [PDict (AList.update ''prog''
                      (PStr (if preset = PRESET_PROG then ''on'' else ''off'')) d)]),
                  (COMMAND_REFRESH_VENTILATION_STATE, []),
                  (COMMAND_REFRESH_VENTILATION_CONFIGURATION_MODE, [])]\<rparr>)"
proof -
  have vm: "\<And>c args p. p \<noteq> [] \<Longrightarrow>
      set_ventilation_mode None (Some p) (snd (async_execute_command c args s)) =
        (Inr (), s\<lparr>states := (states s)
                 (IO_VENTILATION_MODE_STATE := PDict (AList.update ''prog'' (PStr p) d)),
              commands := commands s @
                 [(c, args),
                  (COMMAND_SET_VENTILATION_MODE, [PDict (AList.update ''prog'' (PStr p) d)])]\<rparr>)"
    using assms(1)
    by (subst set_ventilation_mode_prog [where d = d])
      (simp_all add: async_execute_command_def)
  have distinct: "PRESET_AUTO \<noteq> PRESET_PROG" "PRESET_AUTO \<noteq> PRESET_MANUAL"
    "PRESET_PROG \<noteq> PRESET_MANUAL"
    by (simp_all add: hrv_consts)
  from assms(2) consider "preset = PRESET_AUTO" | "preset = PRESET_PROG"
    | "preset = PRESET_MANUAL"
    by (auto simp: PRESET_MODES_def)
  then show ?thesis
  proof cases
    case 1
    with distinct vm [of "''off''"] show ?thesis
      by (simp add: async_set_preset_mode_def andthen_def ok_def)
        (simp add: async_execute_command_def)
  next
    case 2
    with distinct vm [of "''on''"] show ?thesis
      by (simp add: async_set_preset_mode_def andthen_def ok_def)
        (simp add: async_execute_command_def)
  next
    case 3
    with distinct vm [of "''off''"] show ?thesis
      by (simp add: async_set_preset_mode_def andthen_def ok_def)
        (simp add: async_execute_command_def)
  qed
qed


text \<open>
  C5. The VentilationModeState channel holds a record \<open>d\<close>, as the data model has it.
  Then \<open>set_preset_mode(Auto)\<close> starting from configuration mode \<open>standard\<close> and the
  record \<open>{prog: on}\<close> returns normally and submits exactly
  \<open>setVentilationConfigurationMode(comfort)\<close>, \<open>setVentilationMode({prog: off})\<close>,
  \<open>refreshVentilationState()\<close>, \<open>refreshVentilationConfigurationMode()\<close>, in that
  order. In general, for each supported preset the operation returns normally and
  submits exactly four commands: the configuration-mode command (\<open>comfort\<close> for Auto,
  \<open>standard\<close> for Prog and Manual), then the ventilation-mode command carrying the
  record with \<open>prog\<close> set (\<open>on\<close> for Prog, \<open>off\<close> for Auto and Manual), then the two
  refresh commands in their fixed order.
\<close>

theorem set_preset_mode_sequence:
  assumes "states s IO_VENTILATION_MODE_STATE = PDict d"
  shows
    "(states s IO_VENTILATION_CONFIGURATION_MODE_STATE = PStr ''standard''
        \<and> d = [(''prog'', PStr ''on'')] \<longrightarrow>
        fst (async_set_preset_mode PRESET_AUTO s) = Inr ()
        \<and> commands (snd (async_set_preset_mode PRESET_AUTO s)) =
            commands s @
              [(COMMAND_SET_VENTILATION_CONFIGURATION_MODE, [PStr ''comfort'']),
               (COMMAND_SET_VENTILATION_MODE, [PDict [(''prog'', PStr ''off'')]]),
               (COMMAND_REFRESH_VENTILATION_STATE, []),
               (COMMAND_REFRESH_VENTILATION_CONFIGURATION_MODE, [])])
     \<and> (preset \<in> set PRESET_MODES \<longrightarrow>
        fst (async_set_preset_mode preset s) = Inr ()
        \<and> commands (snd (async_set_preset_mode preset s)) =
            commands s @
              [(COMMAND_SET_VENTILATION_CONFIGURATION_MODE,
                 [PStr (if preset = PRESET_AUTO then ''comfort'' else ''standard'')]),
               (COMMAND_SET_VENTILATION_MODE,
                 [PDict (AList.update ''prog''
                    (PStr (if preset = PRESET_PROG then ''on'' else ''off'')) d)]),
               (COMMAND_REFRESH_VENTILATION_STATE, []),
               (COMMAND_REFRESH_VENTILATION_CONFIGURATION_MODE, [])])"
proof -
  have auto_supported: "PRESET_AUTO \<in> set PRESET_MODES"
    by (simp add: PRESET_MODES_def)
  have auto_not_prog: "PRESET_AUTO \<noteq> PRESET_PROG"
    by (simp add: hrv_consts)
  show ?thesis
    using auto_not_prog
    by (simp add: set_preset_mode_supported [OF assms]
        set_preset_mode_supported [OF assms auto_supported])
qed

text \<open>
  The theorem on the spec's starting state with the preset Auto, and on a record with a
  cooling entry with the preset Prog.
\<close>

theorem set_preset_mode_sequence_witness:
  "fst (async_set_preset_mode ''auto''
      \<lparr>states = (\<lambda>c. PNone :: real pyval)
         (''io:VentilationConfigurationModeState'' := PStr ''standard'',
          ''io:VentilationModeState'' := PDict [(''prog'', PStr ''on'')]),
       commands = []\<rparr>) = Inr ()
   \<and> commands (snd (async_set_preset_mode ''auto''
      \<lparr>states = (\<lambda>c. PNone :: real pyval)
         (''io:VentilationConfigurationModeState'' := PStr ''standard'',
          ''io:VentilationModeState'' := PDict [(''prog'', PStr ''on'')]),
       commands = []\<rparr>))
     = [(''setVentilationConfigurationMode'', [PStr ''comfort'']),
        (''setVentilationMode'', [PDict [(''prog'', PStr ''off'')]]),
        (''refreshVentilationState'', []),
        (''refreshVentilationConfigurationMode'', [])]
   \<and> commands (snd (async_set_preset_mode ''prog''
      \<lparr>states = (\<lambda>c. PNone :: real pyval)
         (''io:VentilationConfigurationModeState'' := PStr ''comfort'',
          ''io:VentilationModeState'' :=
             PDict [(''cooling'', PStr ''off''), (''prog'', PStr ''off'')]),
       commands = []\<rparr>))
     = [(''setVentilationConfigurationMode'', [PStr ''standard'']),
        (''setVentilationMode'', [PDict [(''cooling'', PStr ''off''), (''prog'', PStr ''on'')]]),
        (''refreshVentilationState'', []),
        (''refreshVentilationConfigurationMode'', [])]"
proof -
  let ?a = "\<lparr>states = (\<lambda>c. PNone :: real pyval)
         (''io:VentilationConfigurationModeState'' := PStr ''standard'',
          ''io:VentilationModeState'' := PDict [(''prog'', PStr ''on'')]),
       commands = []\<rparr>"
  let ?b = "\<lparr>states = (\<lambda>c. PNone :: real pyval)
         (''io:VentilationConfigurationModeState'' := PStr ''comfort'',
          ''io:VentilationModeState'' :=
             PDict [(''cooling'', PStr ''off''), (''prog'', PStr ''off'')]),
       commands = []\<rparr>"
  have a: "states ?a IO_VENTILATION_MODE_STATE = PDict [(''prog'', PStr ''on'')]"
    by (simp add: hrv_consts)
  have b: "states ?b IO_VENTILATION_MODE_STATE =
      PDict [(''cooling'', PStr ''off''), (''prog'', PStr ''off'')]"
    by (simp add: hrv_consts)
  from set_preset_mode_sequence [OF a, of PRESET_AUTO]
    set_preset_mode_sequence [OF b, of PRESET_PROG]
  show ?thesis
    by (simp add: hrv_consts)
qed

text \<open>
  C2, as the code has it. \<open>async_set_preset_mode\<close> does not validate its argument: for
  a preset that is none of Auto, Prog and Manual none of the three branches runs, no
  error is raised, and exactly the two trailing refresh commands are submitted.
\<close>

theorem set_preset_mode_unsupported:
  assumes "preset \<notin> set PRESET_MODES"
  shows "async_set_preset_mode preset s =
    (Inr (), s\<lparr>commands := commands s @
       [(COMMAND_REFRESH_VENTILATION_STATE, []),
        (COMMAND_REFRESH_VENTILATION_CONFIGURATION_MODE, [])]\<rparr>)"
  using assms by (simp add: async_set_preset_mode_def PRESET_MODES_def action_defs)

text \<open>The theorem at the preset \<open>eco\<close>, which the controller does not support.\<close>

theorem set_preset_mode_unsupported_witness:
  "''eco'' \<notin> set PRESET_MODES
   \<and> async_set_preset_mode ''eco'' \<lparr>states = (\<lambda>c. PNone :: real pyval), commands = []\<rparr>
     = (Inr (), \<lparr>states = (\<lambda>c. PNone),
          commands = [(''refreshVentilationState'', []),
                      (''refreshVentilationConfigurationMode'', [])]\<rparr>)"
proof -
  have unsupported: "''eco'' \<notin> set PRESET_MODES"
    by (simp add: hrv_consts)
  show ?thesis
    using unsupported set_preset_mode_unsupported [OF unsupported,
        of "\<lparr>states = (\<lambda>c. PNone :: real pyval), commands = []\<rparr>"]
    by (simp add: hrv_consts)
qed

text \<open>
  C2 as the spec words it fails: for the unsupported preset \<open>eco\<close> the operation
  returns normally and the refresh commands are submitted.
\<close>

theorem set_preset_mode_unsupported_counterexample:
  "fst (async_set_preset_mode ''eco''
      \<lparr>states = (\<lambda>c. PNone :: real pyval), commands = []\<rparr>) = Inr ()
   \<and> commands (snd (async_set_preset_mode ''eco''
      \<lparr>states = (\<lambda>c. PNone :: real pyval), commands = []\<rparr>))
     = [(''refreshVentilationState'', []), (''refreshVentilationConfigurationMode'', [])]"
  by (simp add: async_set_preset_mode_def action_defs hrv_consts)

section \<open>Ventilation controller: reading the modes, setting the fan mode\<close>

lemma fan_mode_eval:
  assumes "states s IO_VENTILATION_MODE_STATE = PDict d"
  shows "fan_mode s =
    (if dict_get d ''cooling'' = PStr ''on'' then (Inr FAN_BYPASS, s)
     else (getitem_val TAHOMA_TO_FAN_MODES (states s IO_AIR_DEMAND_MODE_STATE), s))"
  using assms by (simp add: fan_mode_def action_defs)

lemma preset_mode_eval:
  assumes "states s IO_VENTILATION_MODE_STATE = PDict d"
  shows "preset_mode s =
    (Inr (if dict_get d ''prog'' = PStr ''on'' then Some PRESET_PROG
          else if states s IO_VENTILATION_CONFIGURATION_MODE_STATE = PStr ''comfort''
            then Some PRESET_AUTO
          else if states s IO_VENTILATION_CONFIGURATION_MODE_STATE = PStr ''standard''
            then Some PRESET_MANUAL
          else None), s)"
  using assms by (simp add: preset_mode_def action_defs)

lemma set_fan_mode_bypass:
  "async_set_fan_mode FAN_BYPASS s =
    (Inr (), s\<lparr>commands := commands s @
       [(COMMAND_SET_AIR_DEMAND_MODE, [PStr ''auto'']),
        (COMMAND_REFRESH_VENTILATION_STATE, []),
        (COMMAND_REFRESH_VENTILATION_CONFIGURATION_MODE, [])]\<rparr>)"
  by (simp add: async_set_fan_mode_def action_defs)

lemma set_fan_mode_lookup:
  assumes "mode \<noteq> FAN_BYPASS" and "getitem FAN_MODES_TO_TAHOMA mode = Inr v"
  shows "async_set_fan_mode mode s =
    (Inr (), s\<lparr>commands := commands s @
       [(COMMAND_SET_AIR_DEMAND_MODE, [v]),
        (COMMAND_REFRESH_VENTILATION_STATE, []),
        (COMMAND_REFRESH_VENTILATION_CONFIGURATION_MODE, [])]\<rparr>)"
  using assms by (simp add: async_set_fan_mode_def action_defs)

lemma set_fan_mode_unsupported:
  fixes s :: "('f, 'z) device_scheme"
  assumes "mode \<noteq> FAN_BYPASS"
    and "getitem (FAN_MODES_TO_TAHOMA :: (string \<times> 'f pyval) list) mode = Inl e"
  shows "async_set_fan_mode mode s = (Inl e, s)"
  using assms by (simp add: async_set_fan_mode_def action_defs)

lemma reverse_fan_modes:
  "getitem FAN_MODES_TO_TAHOMA FAN_AUTO = Inr (PStr ''auto'')"
  "getitem FAN_MODES_TO_TAHOMA FAN_BOOST = Inr (PStr ''away'')"
  "getitem FAN_MODES_TO_TAHOMA FAN_KITCHEN = Inr (PStr ''boost'')"
  "getitem FAN_MODES_TO_TAHOMA FAN_AWAY = Inr (PStr ''high'')"
  "getitem FAN_MODES_TO_TAHOMA FAN_BYPASS = Inr PNone"
  by (simp_all add: FAN_MODES_TO_TAHOMA_eq getitem_def ha_consts hrv_consts)

lemma forward_fan_modes:
  "getitem_val TAHOMA_TO_FAN_MODES (PStr ''auto'') = Inr FAN_AUTO"
  "getitem_val TAHOMA_TO_FAN_MODES (PStr ''away'') = Inr FAN_BOOST"
  "getitem_val TAHOMA_TO_FAN_MODES (PStr ''boost'') = Inr FAN_KITCHEN"
  "getitem_val TAHOMA_TO_FAN_MODES (PStr ''high'') = Inr FAN_AWAY"
  "getitem_val TAHOMA_TO_FAN_MODES PNone = Inr FAN_BYPASS"
  by (simp_all add: TAHOMA_TO_FAN_MODES_def getitem_val_def getitem_def)

lemma forward_operation_modes:
  "getitem_val TAHOMA_TO_OPERATION_MODE (PStr MODE_MANUAL_ECO_ACTIVE) = Inr STATE_ECO"
  "getitem_val TAHOMA_TO_OPERATION_MODE (PStr MODE_MANUAL_ECO_INACTIVE) = Inr STATE_MANUAL"
  "getitem_val TAHOMA_TO_OPERATION_MODE (PStr MODE_AUTO) = Inr STATE_AUTO"
  "getitem_val TAHOMA_TO_OPERATION_MODE (PStr MODE_BOOST) = Inr STATE_HIGH_DEMAND"
  by (simp_all add: TAHOMA_TO_OPERATION_MODE_def getitem_val_def getitem_def dhw_consts)

text \<open>
  C6. Hot water: each of the four raw mode values maps to a generic value which the
  reverse table maps back to the same raw value. Ventilation, with the
  VentilationModeState record's cooling entry not \<open>on\<close>: the raw values \<open>auto\<close>,
  \<open>boost\<close> and \<open>high\<close> are read as Auto, Kitchen and Away, and for each of these
  modes \<open>set_fan_mode\<close> submits \<open>setAirDemandMode\<close> with the original raw value; the
  absent raw value is read as Bypass, for which \<open>set_fan_mode\<close> submits
  \<open>setAirDemandMode(auto)\<close>, not the absent value.
\<close>

theorem mode_tables_round_trip:
  fixes s :: "('f, 'z) device_scheme" and raw :: "'f pyval"
  assumes "states s IO_VENTILATION_MODE_STATE = PDict d"
    and "dict_get d ''cooling'' \<noteq> PStr ''on''"
  shows
    "(raw \<in> {PStr MODE_MANUAL_ECO_ACTIVE, PStr MODE_MANUAL_ECO_INACTIVE, PStr MODE_AUTO,
              PStr MODE_BOOST} \<longrightarrow>
        (\<exists>generic. getitem_val TAHOMA_TO_OPERATION_MODE raw = Inr generic
           \<and> getitem OPERATION_MODE_TO_TAHOMA generic = Inr raw))
     \<and> (states s IO_AIR_DEMAND_MODE_STATE = PStr ''auto'' \<longrightarrow>
        fan_mode s = (Inr FAN_AUTO, s)
        \<and> commands (snd (async_set_fan_mode FAN_AUTO s)) =
            commands s @
              [(COMMAND_SET_AIR_DEMAND_MODE, [PStr ''auto'']),
               (COMMAND_REFRESH_VENTILATION_STATE, []),
               (COMMAND_REFRESH_VENTILATION_CONFIGURATION_MODE, [])])
     \<and> (states s IO_AIR_DEMAND_MODE_STATE = PStr ''boost'' \<longrightarrow>
        fan_mode s = (Inr FAN_KITCHEN, s)
        \<and> commands (snd (async_set_fan_mode FAN_KITCHEN s)) =
            commands s @
              [(COMMAND_SET_AIR_DEMAND_MODE, [PStr ''boost'']),
               (COMMAND_REFRESH_VENTILATION_STATE, []),
               (COMMAND_REFRESH_VENTILATION_CONFIGURATION_MODE, [])])
     \<and> (states s IO_AIR_DEMAND_MODE_STATE = PStr ''high'' \<longrightarrow>
        fan_mode s = (Inr FAN_AWAY, s)
        \<and> commands (snd (async_set_fan_mode FAN_AWAY s)) =
            commands s @
              [(COMMAND_SET_AIR_DEMAND_MODE, [PStr ''high'']),
               (COMMAND_REFRESH_VENTILATION_STATE, []),
               (COMMAND_REFRESH_VENTILATION_CONFIGURATION_MODE, [])])
     \<and> (states s IO_AIR_DEMAND_MODE_STATE = PNone \<longrightarrow>
        fan_mode s = (Inr FAN_BYPASS, s)
        \<and> commands (snd (async_set_fan_mode FAN_BYPASS s)) =
            commands s @
              [(COMMAND_SET_AIR_DEMAND_MODE, [PStr ''auto'']),
               (COMMAND_REFRESH_VENTILATION_STATE, []),
               (COMMAND_REFRESH_VENTILATION_CONFIGURATION_MODE, [])])"
proof -
  have hot_water:
    "raw \<in> {PStr MODE_MANUAL_ECO_ACTIVE, PStr MODE_MANUAL_ECO_INACTIVE, PStr MODE_AUTO,
              PStr MODE_BOOST} \<longrightarrow>
        (\<exists>generic. getitem_val TAHOMA_TO_OPERATION_MODE raw = Inr generic
           \<and> getitem OPERATION_MODE_TO_TAHOMA generic = Inr raw)"
    using forward_operation_modes reverse_operation_modes by auto
  have read: "fan_mode s =
      (getitem_val TAHOMA_TO_FAN_MODES (states s IO_AIR_DEMAND_MODE_STATE), s)"
    using assms by (simp add: fan_mode_eval)
  have not_bypass: "FAN_AUTO \<noteq> FAN_BYPASS" "FAN_KITCHEN \<noteq> FAN_BYPASS"
    "FAN_AWAY \<noteq> FAN_BYPASS"
    by (simp_all add: ha_consts hrv_consts)
  have ventilation:
    "states s IO_AIR_DEMAND_MODE_STATE = PStr ''auto'' \<longrightarrow>
        fan_mode s = (Inr FAN_AUTO, s)
        \<and> commands (snd (async_set_fan_mode FAN_AUTO s)) =
            commands s @
              [(COMMAND_SET_AIR_DEMAND_MODE, [PStr ''auto'']),
               (COMMAND_REFRESH_VENTILATION_STATE, []),
               (COMMAND_REFRESH_VENTILATION_CONFIGURATION_MODE, [])]"
    "states s IO_AIR_DEMAND_MODE_STATE = PStr ''boost'' \<longrightarrow>
        fan_mode s = (Inr FAN_KITCHEN, s)
        \<and> commands (snd (async_set_fan_mode FAN_KITCHEN s)) =
            commands s @
              [(COMMAND_SET_AIR_DEMAND_MODE, [PStr ''boost'']),
               (COMMAND_REFRESH_VENTILATION_STATE, []),
               (COMMAND_REFRESH_VENTILATION_CONFIGURATION_MODE, [])]"
    "states s IO_AIR_DEMAND_MODE_STATE = PStr ''high'' \<longrightarrow>
        fan_mode s = (Inr FAN_AWAY, s)
        \<and> commands (snd (async_set_fan_mode FAN_AWAY s)) =
            commands s @
              [(COMMAND_SET_AIR_DEMAND_MODE, [PStr ''high'']),
               (COMMAND_REFRESH_VENTILATION_STATE, []),
               (COMMAND_REFRESH_VENTILATION_CONFIGURATION_MODE, [])]"
    "states s IO_AIR_DEMAND_MODE_STATE = PNone \<longrightarrow>
        fan_mode s = (Inr FAN_BYPASS, s)
        \<and> commands (snd (async_set_fan_mode FAN_BYPASS s)) =
            commands s @
              [(COMMAND_SET_AIR_DEMAND_MODE, [PStr ''auto'']),
               (COMMAND_REFRESH_VENTILATION_STATE, []),
               (COMMAND_REFRESH_VENTILATION_CONFIGURATION_MODE, [])]"
    by (simp_all add: read forward_fan_modes set_fan_mode_bypass
        set_fan_mode_lookup [OF not_bypass(1) reverse_fan_modes(1)]
        set_fan_mode_lookup [OF not_bypass(2) reverse_fan_modes(3)]
        set_fan_mode_lookup [OF not_bypass(3) reverse_fan_modes(4)])
  from hot_water ventilation show ?thesis
    by blast
qed

text \<open>
  The theorem on a store whose air demand is \<open>high\<close>, on one where it is absent, and
  at the raw hot-water mode \<open>manualEcoActive\<close>.
\<close>

theorem mode_tables_round_trip_witness:
  "fan_mode
      \<lparr>states = (\<lambda>c. PNone :: real pyval)
         (''io:VentilationModeState'' := PDict [(''cooling'', PStr ''off'')],
          ''io:AirDemandModeState'' := PStr ''high''),
       commands = []\<rparr>
     = (Inr ''away'',
        \<lparr>states = (\<lambda>c. PNone)
           (''io:VentilationModeState'' := PDict [(''cooling'', PStr ''off'')],
            ''io:AirDemandModeState'' := PStr ''high''),
         commands = []\<rparr>)
   \<and> commands (snd (async_set_fan_mode ''away''
      \<lparr>states = (\<lambda>c. PNone :: real pyval)
         (''io:VentilationModeState'' := PDict [(''cooling'', PStr ''off'')],
          ''io:AirDemandModeState'' := PStr ''high''),
       commands = []\<rparr>))
     = [(''setAirDemandMode'', [PStr ''high'']),
        (''refreshVentilationState'', []),
        (''refreshVentilationConfigurationMode'', [])]
   \<and> fan_mode
      \<lparr>states = (\<lambda>c. PNone :: real pyval)
         (''io:VentilationModeState'' := PDict [(''cooling'', PStr ''off'')]),
       commands = []\<rparr>
     = (Inr ''bypass_boost'',
        \<lparr>states = (\<lambda>c. PNone)
           (''io:VentilationModeState'' := PDict [(''cooling'', PStr ''off'')]),
         commands = []\<rparr>)
   \<and> commands (snd (async_set_fan_mode ''bypass_boost''
      \<lparr>states = (\<lambda>c. PNone :: real pyval)
         (''io:VentilationModeState'' := PDict [(''cooling'', PStr ''off'')]),
       commands = []\<rparr>))
     = [(''setAirDemandMode'', [PStr ''auto'']),
        (''refreshVentilationState'', []),
        (''refreshVentilationConfigurationMode'', [])]
   \<and> getitem_val (TAHOMA_TO_OPERATION_MODE :: (real pyval \<times> string) list)
        (PStr ''manualEcoActive'') = Inr ''eco''
   \<and> getitem (OPERATION_MODE_TO_TAHOMA :: (string \<times> real pyval) list) ''eco''
        = Inr (PStr ''manualEcoActive'')"
proof -
  let ?high = "\<lparr>states = (\<lambda>c. PNone :: real pyval)
         (''io:VentilationModeState'' := PDict [(''cooling'', PStr ''off'')],
          ''io:AirDemandModeState'' := PStr ''high''),
       commands = []\<rparr>"
  let ?absent = "\<lparr>states = (\<lambda>c. PNone :: real pyval)
         (''io:VentilationModeState'' := PDict [(''cooling'', PStr ''off'')]),
       commands = []\<rparr>"
  have record_high: "states ?high IO_VENTILATION_MODE_STATE = PDict [(''cooling'', PStr ''off'')]"
    and record_absent:
      "states ?absent IO_VENTILATION_MODE_STATE = PDict [(''cooling'', PStr ''off'')]"
    by (simp_all add: hrv_consts)
  have no_cooling: "dict_get [(''cooling'', PStr ''off'' :: real pyval)] ''cooling'' \<noteq> PStr ''on''"
    by (simp add: dict_get_def)
  have high: "states ?high IO_AIR_DEMAND_MODE_STATE = PStr ''high''"
    and absent: "states ?absent IO_AIR_DEMAND_MODE_STATE = PNone"
    by (simp_all add: hrv_consts)
  have away: "getitem_val (TAHOMA_TO_FAN_MODES :: (real pyval \<times> string) list) (PStr ''high'')
      = Inr ''away''"
    by (simp add: forward_fan_modes hrv_consts)
  have eco: "getitem_val (TAHOMA_TO_OPERATION_MODE :: (real pyval \<times> string) list)
      (PStr ''manualEcoActive'') = Inr ''eco''"
    by (simp add: TAHOMA_TO_OPERATION_MODE_def getitem_val_def getitem_def ha_consts dhw_consts)
  have read_high: "fan_mode ?high = (Inr ''away'', ?high)"
    using away by (simp add: fan_mode_eval [OF record_high] dict_get_def hrv_consts)
  from mode_tables_round_trip [OF record_high no_cooling, of "PStr ''manualEcoActive''"]
    mode_tables_round_trip [OF record_absent no_cooling, of "PStr ''manualEcoActive''"]
    high absent eco read_high
  show ?thesis
    by (simp add: ha_consts dhw_consts hrv_consts)
qed

text \<open>
  C7, as the code has it. With the VentilationModeState channel holding a record:
  \<open>preset_mode\<close> returns \<open>None\<close> when the prog entry is not \<open>on\<close> and the configuration
  mode is neither \<open>comfort\<close> nor \<open>standard\<close>. \<open>fan_mode\<close>, when the cooling entry is
  not \<open>on\<close>, returns Bypass for the absent AirDemandModeState value, which the table
  lists, and fails for every value outside the table: with KeyError, or with TypeError
  when the value is a record.
\<close>

theorem ventilation_reads_unmapped:
  assumes "states s IO_VENTILATION_MODE_STATE = PDict d"
  shows
    "(dict_get d ''prog'' \<noteq> PStr ''on''
        \<and> states s IO_VENTILATION_CONFIGURATION_MODE_STATE \<noteq> PStr ''comfort''
        \<and> states s IO_VENTILATION_CONFIGURATION_MODE_STATE \<noteq> PStr ''standard'' \<longrightarrow>
        preset_mode s = (Inr None, s))
     \<and> (dict_get d ''cooling'' \<noteq> PStr ''on''
        \<and> states s IO_AIR_DEMAND_MODE_STATE = PNone \<longrightarrow>
        fan_mode s = (Inr FAN_BYPASS, s))
     \<and> (dict_get d ''cooling'' \<noteq> PStr ''on''
        \<and> states s IO_AIR_DEMAND_MODE_STATE \<notin>
            {PStr ''auto'', PStr ''away'', PStr ''boost'', PStr ''high'', PNone} \<longrightarrow>
        fan_mode s =
          (Inl (if hashable (states s IO_AIR_DEMAND_MODE_STATE) then KeyError else TypeError),
           s))"
  by (simp add: preset_mode_eval [OF assms] fan_mode_eval [OF assms] forward_fan_modes)
    (simp add: TAHOMA_TO_FAN_MODES_def getitem_val_def getitem_def)

text \<open>
  The theorem on a store whose configuration mode is the unlisted \<open>eco\<close> and whose air
  demand is absent, and on a store whose air demand is the unlisted \<open>low\<close>.
\<close>

theorem ventilation_reads_unmapped_witness:
  "preset_mode
      \<lparr>states = (\<lambda>c. PNone :: real pyval)
         (''io:VentilationModeState'' := PDict [(''prog'', PStr ''off'')],
          ''io:VentilationConfigurationModeState'' := PStr ''eco''),
       commands = []\<rparr>
     = (Inr None,
        \<lparr>states = (\<lambda>c. PNone)
           (''io:VentilationModeState'' := PDict [(''prog'', PStr ''off'')],
            ''io:VentilationConfigurationModeState'' := PStr ''eco''),
         commands = []\<rparr>)
   \<and> fan_mode
      \<lparr>states = (\<lambda>c. PNone :: real pyval)
         (''io:VentilationModeState'' := PDict [(''prog'', PStr ''off'')],
          ''io:AirDemandModeState'' := PStr ''low''),
       commands = []\<rparr>
     = (Inl KeyError,
        \<lparr>states = (\<lambda>c. PNone)
           (''io:VentilationModeState'' := PDict [(''prog'', PStr ''off'')],
            ''io:AirDemandModeState'' := PStr ''low''),
         commands = []\<rparr>)
   \<and> fan_mode
      \<lparr>states = (\<lambda>c. PNone :: real pyval)
         (''io:VentilationModeState'' := PDict [(''prog'', PStr ''off'')],
          ''io:VentilationConfigurationModeState'' := PStr ''eco''),
       commands = []\<rparr>
     = (Inr ''bypass_boost'',
        \<lparr>states = (\<lambda>c. PNone)
           (''io:VentilationModeState'' := PDict [(''prog'', PStr ''off'')],
            ''io:VentilationConfigurationModeState'' := PStr ''eco''),
         commands = []\<rparr>)"
proof -
  let ?eco = "\<lparr>states = (\<lambda>c. PNone :: real pyval)
         (''io:VentilationModeState'' := PDict [(''prog'', PStr ''off'')],
          ''io:VentilationConfigurationModeState'' := PStr ''eco''),
       commands = []\<rparr>"
  let ?low = "\<lparr>states = (\<lambda>c. PNone :: real pyval)
         (''io:VentilationModeState'' := PDict [(''prog'', PStr ''off'')],
          ''io:AirDemandModeState'' := PStr ''low''),
       commands = []\<rparr>"
  have record_eco: "states ?eco IO_VENTILATION_MODE_STATE = PDict [(''prog'', PStr ''off'')]"
    and record_low: "states ?low IO_VENTILATION_MODE_STATE = PDict [(''prog'', PStr ''off'')]"
    by (simp_all add: hrv_consts)
  from ventilation_reads_unmapped [OF record_eco] ventilation_reads_unmapped [OF record_low]
  show ?thesis
    by (simp add: dict_get_def hrv_consts)
qed

text \<open>
  C7 as the spec words it fails for \<open>fan_mode\<close>: with cooling off and the air demand
  \<open>low\<close>, which the table does not list, the read raises KeyError instead of returning
  an unknown result.
\<close>

theorem fan_mode_unmapped_counterexample:
  "fst (fan_mode
      \<lparr>states = (\<lambda>c. PNone :: real pyval)
         (''io:VentilationModeState'' := PDict [(''cooling'', PStr ''off'')],
          ''io:AirDemandModeState'' := PStr ''low''),
       commands = []\<rparr>) = Inl KeyError"
  by (simp add: fan_mode_def action_defs dict_get_def TAHOMA_TO_FAN_MODES_def
      getitem_val_def getitem_def ha_consts hrv_consts)

section \<open>The store is written by the preset transaction only\<close>














section \<open>Ventilation controller: the temperature sensor\<close>

text \<open>
  C9. \<open>float\<close> is Python's conversion, which rejects the string \<open>unknown\<close>. For every
  notification: if the new state is absent or equals the old one, the controller is left
  exactly as it was (no update, nothing logged, nothing scheduled). If the new state's
  value does not parse as a number, the operation returns normally, the cached
  temperature keeps its prior value and the only trace is the logged error (nothing is
  logged for the value \<open>unknown\<close>, which is skipped before the conversion). Otherwise
  the operation returns normally and the cached temperature is the parsed value.
\<close>

theorem temp_sensor_changed_cases:
  assumes "float STATE_UNKNOWN = None"
  shows
    "(new_state = None \<or> old_state = new_state \<longrightarrow>
        async_temp_sensor_changed float entity old_state new_state v = (Inr (), v))
     \<and> (new_state = Some x \<and> old_state \<noteq> new_state \<and> float (state x) = None \<longrightarrow>
        fst (async_temp_sensor_changed float entity old_state new_state v) = Inr ()
        \<and> self_current_temperature
            (snd (async_temp_sensor_changed float entity old_state new_state v)) =
            self_current_temperature v
        \<and> logged (snd (async_temp_sensor_changed float entity old_state new_state v)) =
            logged v @
              (if state x = STATE_UNKNOWN then []
               else [LogError ''Unable to update from sensor: %s'' (state x)]))
     \<and> (new_state = Some x \<and> old_state \<noteq> new_state \<and> float (state x) = Some t \<longrightarrow>
        fst (async_temp_sensor_changed float entity old_state new_state v) = Inr ()
        \<and> self_current_temperature
            (snd (async_temp_sensor_changed float entity old_state new_state v)) = Some t
        \<and> logged (snd (async_temp_sensor_changed float entity old_state new_state v)) =
            logged v)"
proof -
  have known: "float (state x) = Some t \<longrightarrow> state x \<noteq> STATE_UNKNOWN"
    using assms by auto
  then show ?thesis
    by (auto simp: async_temp_sensor_changed_def update_temp_def schedule_update_ha_state_def
        andthen_def ok_def)
qed

text \<open>
  The theorem with a conversion that accepts only \<open>21.5\<close>, on a controller caching 20
  degrees: a repeated state, the unparsable value \<open>warm\<close>, and the value \<open>21.5\<close>.
\<close>

theorem temp_sensor_changed_cases_witness:
  "async_temp_sensor_changed (\<lambda>x. if x = ''21.5'' then Some (21.5 :: real) else None)
      ''sensor.temperature''
      (Some \<lparr>entity_id = ''sensor.temperature'', state = ''21.5'', attributes = ()\<rparr>)
      (Some \<lparr>entity_id = ''sensor.temperature'', state = ''21.5'', attributes = ()\<rparr>)
      \<lparr>states = (\<lambda>c. PNone), commands = [],
       self_temp_sensor_entity_id = Some ''sensor.temperature'',
       self_current_temperature = Some 20, logged = [], scheduled_updates = 1\<rparr>
     = (Inr (),
        \<lparr>states = (\<lambda>c. PNone), commands = [],
         self_temp_sensor_entity_id = Some ''sensor.temperature'',
         self_current_temperature = Some 20, logged = [], scheduled_updates = 1\<rparr>)
   \<and> self_current_temperature (snd
      (async_temp_sensor_changed (\<lambda>x. if x = ''21.5'' then Some (21.5 :: real) else None)
        ''sensor.temperature''
        (Some \<lparr>entity_id = ''sensor.temperature'', state = ''21.5'', attributes = ()\<rparr>)
        (Some \<lparr>entity_id = ''sensor.temperature'', state = ''warm'', attributes = ()\<rparr>)
        \<lparr>states = (\<lambda>c. PNone), commands = [],
         self_temp_sensor_entity_id = Some ''sensor.temperature'',
         self_current_temperature = Some 20, logged = [], scheduled_updates = 1\<rparr>))
     = Some 20
   \<and> logged (snd
      (async_temp_sensor_changed (\<lambda>x. if x = ''21.5'' then Some (21.5 :: real) else None)
        ''sensor.temperature''
        (Some \<lparr>entity_id = ''sensor.temperature'', state = ''21.5'', attributes = ()\<rparr>)
        (Some \<lparr>entity_id = ''sensor.temperature'', state = ''warm'', attributes = ()\<rparr>)
        \<lparr>states = (\<lambda>c. PNone), commands = [],
         self_temp_sensor_entity_id = Some ''sensor.temperature'',
         self_current_temperature = Some 20, logged = [], scheduled_updates = 1\<rparr>))
     = [LogError ''Unable to update from sensor: %s'' ''warm'']
   \<and> self_current_temperature (snd
      (async_temp_sensor_changed (\<lambda>x. if x = ''21.5'' then Some (21.5 :: real) else None)
        ''sensor.temperature''
        (Some \<lparr>entity_id = ''sensor.temperature'', state = ''warm'', attributes = ()\<rparr>)
        (Some \<lparr>entity_id = ''sensor.temperature'', state = ''21.5'', attributes = ()\<rparr>)
        \<lparr>states = (\<lambda>c. PNone), commands = [],
         self_temp_sensor_entity_id = Some ''sensor.temperature'',
         self_current_temperature = Some 20, logged = [], scheduled_updates = 1\<rparr>))
     = Some 21.5"
proof -
  let ?float = "\<lambda>x. if x = ''21.5'' then Some (21.5 :: real) else None"
  let ?reading = "\<lparr>entity_id = ''sensor.temperature'', state = ''21.5'', attributes = ()\<rparr>"
  let ?warm = "\<lparr>entity_id = ''sensor.temperature'', state = ''warm'', attributes = ()\<rparr>"
  let ?v = "\<lparr>states = (\<lambda>c. PNone), commands = [],
       self_temp_sensor_entity_id = Some ''sensor.temperature'',
       self_current_temperature = Some (20 :: real), logged = [], scheduled_updates = 1\<rparr>
       :: real ventilation"
  have unknown: "?float STATE_UNKNOWN = None"
    by (simp add: STATE_UNKNOWN_def)
  note cases = temp_sensor_changed_cases [where float = ?float, OF unknown]
  have ignored: "async_temp_sensor_changed ?float ''sensor.temperature''
      (Some ?reading) (Some ?reading) ?v = (Inr (), ?v)"
    using cases [where new_state = "Some ?reading" and old_state = "Some ?reading"] by simp
  have unparsable:
    "self_current_temperature (snd (async_temp_sensor_changed ?float ''sensor.temperature''
        (Some ?reading) (Some ?warm) ?v)) = Some 20"
    "logged (snd (async_temp_sensor_changed ?float ''sensor.temperature''
        (Some ?reading) (Some ?warm) ?v)) = [LogError ''Unable to update from sensor: %s'' ''warm'']"
    using cases [where new_state = "Some ?warm" and old_state = "Some ?reading" and x = ?warm
        and entity = "''sensor.temperature''" and v = ?v]
    by (simp_all add: STATE_UNKNOWN_def)
  have parsed:
    "self_current_temperature (snd (async_temp_sensor_changed ?float ''sensor.temperature''
        (Some ?warm) (Some ?reading) ?v)) = Some 21.5"
    using cases [where new_state = "Some ?reading" and old_state = "Some ?warm"
        and x = ?reading and t = "21.5" and entity = "''sensor.temperature''" and v = ?v]
    by simp
  from ignored unparsable parsed show ?thesis
    by simp
qed

section \<open>Ventilation controller: the single operating mode\<close>

text \<open>
  C10. For every input string \<open>async_set_hvac_mode\<close> returns normally and leaves the
  whole controller unchanged: no command is submitted, and the store, the cached
  temperature and the sensor binding are as before.
\<close>

theorem set_hvac_mode_noop:
  "async_set_hvac_mode hvac_mode v = (Inr (), v)
   \<and> commands (snd (async_set_hvac_mode hvac_mode v)) = commands v
   \<and> states (snd (async_set_hvac_mode hvac_mode v)) = states v
   \<and> self_current_temperature (snd (async_set_hvac_mode hvac_mode v)) =
       self_current_temperature v
   \<and> self_temp_sensor_entity_id (snd (async_set_hvac_mode hvac_mode v)) =
       self_temp_sensor_entity_id v"
  by (simp add: async_set_hvac_mode_def ok_def)

end
